theory Spec2Isabelle
  imports Main "HOL-Library.Word"
begin

section \<open>JavaScript strings\<close>

text \<open>
  A JavaScript string is a sequence of UTF-16 code units. String literals of
  \<^verbatim>\<open>index.tsx\<close> are written with \<open>js\<close> on their ASCII runs and as numerals on
  every other code unit (accented letters, line feeds, emoji as surrogate pairs).
\<close>

type_synonym jsstring = "16 word list"

definition js :: "string \<Rightarrow> jsstring" where
  "js s = map of_char s"

text \<open>
  Truthiness of an optional string, and \<^verbatim>\<open>x || d\<close> on it: \<^verbatim>\<open>undefined\<close> and
  \<^verbatim>\<open>""\<close> are falsy.
\<close>

definition truthy :: "jsstring option \<Rightarrow> bool" where
  "truthy x = (case x of None \<Rightarrow> False | Some s \<Rightarrow> s \<noteq> [])"

definition orElse :: "jsstring option \<Rightarrow> jsstring \<Rightarrow> jsstring" where
  "orElse x d = (case x of None \<Rightarrow> d | Some s \<Rightarrow> if s = [] then d else s)"

text \<open>\<^verbatim>\<open>${x}\<close> in a template literal: \<^verbatim>\<open>undefined\<close> prints as the word itself.\<close>

definition interpolate :: "jsstring option \<Rightarrow> jsstring" where
  "interpolate x = (case x of None \<Rightarrow> js ''undefined'' | Some s \<Rightarrow> s)"

text \<open>The code units that \<^verbatim>\<open>String.prototype.trim\<close> strips (WhiteSpace and LineTerminator).\<close>

definition isWhiteSpace :: "16 word \<Rightarrow> bool" where
  "isWhiteSpace c =
     (c \<in> set [0x9, 0xA, 0xB, 0xC, 0xD, 0x20, 0xA0, 0x1680, 0x2028, 0x2029, 0x202F, 0x205F, 0x3000, 0xFEFF]
      \<or> (0x2000 \<le> c \<and> c \<le> 0x200A))"

definition trim :: "jsstring \<Rightarrow> jsstring" where
  "trim s = rev (dropWhile isWhiteSpace (rev (dropWhile isWhiteSpace s)))"

text \<open>\<^verbatim>\<open>Array.prototype.join\<close> on an array of strings.\<close>

fun join :: "jsstring \<Rightarrow> jsstring list \<Rightarrow> jsstring" where
  "join sep [] = []"
| "join sep [x] = x"
| "join sep (x # y # ys) = x @ sep @ join sep (y # ys)"

text \<open>\<^verbatim>\<open>${n}\<close> for a non-negative integer \<open>n\<close>: its decimal digits.\<close>

definition digit :: "nat \<Rightarrow> 16 word" where
  "digit d = of_nat (48 + d)"

fun numberToString :: "nat \<Rightarrow> jsstring" where
  "numberToString n =
     (if n < 10 then [digit n] else numberToString (n div 10) @ [digit (n mod 10)])"

declare numberToString.simps [simp del]

section \<open>Data model\<close>

text \<open>
  \<^verbatim>\<open>interface Recipe\<close>. The value held at run time is whatever
  \<^verbatim>\<open>JSON.parse(...) as Recipe\<close> returned: the cast checks nothing, so every field,
  also one the interface requires, may be \<^verbatim>\<open>undefined\<close> (\<open>None\<close>). The record covers
  the objects whose fields, where present, have the types of the interface, which is what
  the \<^verbatim>\<open>responseSchema\<close> of the request asks the model for.
\<close>

record Recipe =
  name :: "jsstring option"
  ingredients :: "jsstring list option"
  instructions :: "jsstring list option"
  totalTime :: "jsstring option"
  tip :: "jsstring option"
  imageUrl :: "jsstring option"

text \<open>The part of \<^verbatim>\<open>GenerateContentResponse\<close> that the image step reads.\<close>

record Blob =
  data :: "jsstring option"
  mimeType :: "jsstring option"

record Part =
  inlineData :: "Blob option"

record Content =
  parts :: "Part list option"

record Candidate =
  content :: "Content option"

record ImageResponse =
  candidates :: "Candidate list option"

text \<open>What is thrown: a \<^verbatim>\<open>TypeError\<close> of the code's own, or the rejection of an awaited call.\<close>

datatype exn = TypeError | Rejected

text \<open>A track of a \<^verbatim>\<open>MediaStream\<close> is live until \<^verbatim>\<open>track.stop()\<close> ends it.\<close>

datatype readyState = Live | Ended

type_synonym MediaStream = "readyState list"

text \<open>Calls of \<^verbatim>\<open>ai.models.generateContent\<close>, by what they send.\<close>

datatype request =
    VisionRequest jsstring jsstring
  | RecipeRequest jsstring jsstring
  | ImageRequest jsstring

text \<open>
  The state of \<^verbatim>\<open>App\<close>: its \<^verbatim>\<open>useState\<close> cells, the video element behind
  \<^verbatim>\<open>videoRef\<close>, and the world it acts on. \<open>videoRef\<close> is \<open>None\<close> while the camera
  modal is not mounted, \<open>Some None\<close> for a mounted element without \<^verbatim>\<open>srcObject\<close>,
  \<open>Some (Some i)\<close> when \<^verbatim>\<open>srcObject\<close> is stream \<open>i\<close> of \<open>device\<close>, the streams
  handed out by \<^verbatim>\<open>getUserMedia\<close> so far. The canvas behind \<^verbatim>\<open>canvasRef\<close> sits in
  the same modal and is mounted exactly when the video element is. \<open>sent\<close> lists the
  model calls made, \<open>alerts\<close> the messages shown with \<^verbatim>\<open>alert\<close>.
\<close>

record App =
  input :: jsstring
  preference :: jsstring
  recipe :: "Recipe option"
  loading :: bool
  isCameraOpen :: bool
  isAnalyzing :: bool
  variationCount :: nat
  copied :: bool
  videoRef :: "nat option option"
  device :: "MediaStream list"
  sent :: "request list"
  alerts :: "jsstring list"

text \<open>The initial values of the \<^verbatim>\<open>useState\<close> cells, before any camera or model call.\<close>

definition initialApp :: App where
  "initialApp =
     \<lparr>input = [], preference = [], recipe = None, loading = False, isCameraOpen = False,
      isAnalyzing = False, variationCount = 0, copied = False, videoRef = None, device = [],
      sent = [], alerts = []\<rparr>"

text \<open>
  React renders between two event handlers (and between the two halves of an
  \<^verbatim>\<open>await\<close>): the modal, and with it the video element, is mounted exactly when
  \<^verbatim>\<open>isCameraOpen\<close> holds; a newly mounted element has no \<^verbatim>\<open>srcObject\<close>.
\<close>

definition commit :: "App \<Rightarrow> App" where
  "commit st =
     (if isCameraOpen st
      then (case videoRef st of None \<Rightarrow> st\<lparr>videoRef := Some None\<rparr> | Some v \<Rightarrow> st)
      else st\<lparr>videoRef := None\<rparr>)"

section \<open>Capture session\<close>

definition cameraAlert :: jsstring where
  "cameraAlert = js ''N'' @ [0xE3] @ js ''o foi poss'' @ [0xED] @ js ''vel acessar a c'' @ [0xE2]
     @ js ''mera. Verifique as permiss'' @ [0xF5] @ js ''es.''"

definition analysisAlert :: jsstring where
  "analysisAlert = js ''Falha ao analisar a imagem. Tente novamente.''"

definition visionInstruction :: jsstring where
  "visionInstruction =
     js ''Analise esta foto de uma geladeira ou despensa e liste todos os ingredientes alimentares que voc''
     @ [0xEA] @ js '' identifica. Retorne apenas os nomes dos ingredientes separados por v'' @ [0xED]
     @ js ''rgula, de forma curta e direta. N'' @ [0xE3] @ js ''o use frases completas.''"

text \<open>\<^verbatim>\<open>startCamera\<close> up to its \<^verbatim>\<open>await\<close>.\<close>

definition startCamera_begin :: "App \<Rightarrow> App" where
  "startCamera_begin st = st\<lparr>isCameraOpen := True\<rparr>"

text \<open>
  \<^verbatim>\<open>startCamera\<close> after \<^verbatim>\<open>getUserMedia\<close> has settled: with a new stream, attached
  if the video element is there, or with a rejection.
\<close>

definition startCamera_settle :: "exn + MediaStream \<Rightarrow> App \<Rightarrow> App" where
  "startCamera_settle outcome st =
     (case outcome of
        Inr stream \<Rightarrow>
          (let st1 = st\<lparr>device := device st @ [stream]\<rparr>
           in case videoRef st1 of
                Some v \<Rightarrow> st1\<lparr>videoRef := Some (Some (length (device st)))\<rparr>
              | None \<Rightarrow> st1)
      | Inl err \<Rightarrow> st\<lparr>alerts := alerts st @ [cameraAlert], isCameraOpen := False\<rparr>)"

definition stopTracks :: "nat \<Rightarrow> MediaStream list \<Rightarrow> MediaStream list" where
  "stopTracks i ds = (if i < length ds then ds[i := map (\<lambda>track. Ended) (ds ! i)] else ds)"

definition stopCamera :: "App \<Rightarrow> App" where
  "stopCamera st =
     (let st1 = (case videoRef st of
                   Some (Some i) \<Rightarrow> st\<lparr>device := stopTracks i (device st)\<rparr>
                 | Some None \<Rightarrow> st
                 | None \<Rightarrow> st)
      in st1\<lparr>isCameraOpen := False\<rparr>)"

text \<open>The updater passed to \<^verbatim>\<open>setInput\<close> in \<^verbatim>\<open>captureAndAnalyze\<close>.\<close>

definition mergeIngredients :: "jsstring \<Rightarrow> jsstring \<Rightarrow> jsstring" where
  "mergeIngredients prev detectedIngredients =
     (if prev \<noteq> [] then prev @ js '', '' @ detectedIngredients else detectedIngredients)"

text \<open>
  \<^verbatim>\<open>captureAndAnalyze\<close> up to its \<^verbatim>\<open>await\<close>. \<open>context\<close> tells whether
  \<^verbatim>\<open>getContext('2d')\<close> gave a context, \<open>base64Image\<close> is the frame the canvas
  encoded. The flag returned tells whether the vision call was made.
\<close>

definition captureAndAnalyze_begin :: "bool \<Rightarrow> jsstring \<Rightarrow> App \<Rightarrow> bool \<times> App" where
  "captureAndAnalyze_begin context base64Image st =
     (if videoRef st = None then (False, st)
      else
        let st1 = st\<lparr>isAnalyzing := True\<rparr>
        in if context
           then (True, st1\<lparr>sent := sent st1 @ [VisionRequest base64Image visionInstruction]\<rparr>)
           else (False, st1))"

text \<open>
  \<^verbatim>\<open>captureAndAnalyze\<close> after the vision call has settled: with the response's
  \<^verbatim>\<open>text\<close> (possibly \<^verbatim>\<open>undefined\<close>), or with a rejection.
\<close>

definition captureAndAnalyze_settle :: "exn + jsstring option \<Rightarrow> App \<Rightarrow> App" where
  "captureAndAnalyze_settle outcome st =
     (case outcome of
        Inr responseText \<Rightarrow>
          (let detectedIngredients = orElse responseText [];
               st1 = (if detectedIngredients \<noteq> []
                      then st\<lparr>input := mergeIngredients (input st) detectedIngredients\<rparr>
                      else st);
               st2 = stopCamera st1
           in st2\<lparr>isAnalyzing := False\<rparr>)
      | Inl err \<Rightarrow> st\<lparr>alerts := alerts st @ [analysisAlert], isAnalyzing := False\<rparr>)"

text \<open>The click handlers of the camera, each followed by React's render.\<close>

definition clickScan :: "App \<Rightarrow> App" where
  "clickScan st = (if recipe st = None then commit (startCamera_begin st) else st)"

definition cameraSettled :: "exn + MediaStream \<Rightarrow> App \<Rightarrow> App" where
  "cameraSettled outcome st = commit (startCamera_settle outcome st)"

definition clickClose :: "App \<Rightarrow> App" where
  "clickClose st = (if isCameraOpen st then commit (stopCamera st) else st)"

definition clickCapture :: "bool \<Rightarrow> jsstring \<Rightarrow> App \<Rightarrow> bool \<times> App" where
  "clickCapture context base64Image st =
     (if isCameraOpen st \<and> \<not> isAnalyzing st
      then (let (called, st1) = captureAndAnalyze_begin context base64Image st in (called, commit st1))
      else (False, st))"

definition analysisSettled :: "exn + jsstring option \<Rightarrow> App \<Rightarrow> App" where
  "analysisSettled outcome st = commit (captureAndAnalyze_settle outcome st)"

text \<open>One whole run of \<^verbatim>\<open>captureAndAnalyze\<close>, with no other event in between.\<close>

definition captureAndAnalyze :: "bool \<Rightarrow> jsstring \<Rightarrow> exn + jsstring option \<Rightarrow> App \<Rightarrow> App" where
  "captureAndAnalyze context base64Image outcome st =
     (case clickCapture context base64Image st of
        (True, st1) \<Rightarrow> analysisSettled outcome st1
      | (False, st1) \<Rightarrow> st1)"

section \<open>Recipe synthesis\<close>

definition systemPrompt :: "jsstring \<Rightarrow> jsstring" where
  "systemPrompt pref =
     js ''Voc'' @ [0xEA] @ js '' '' @ [0xE9] @ js '' um chef pr'' @ [0xE1]
     @ js ''tico do dia a dia. Seu papel '' @ [0xE9] @ js '' criar UMA receita poss'' @ [0xED]
     @ js ''vel agora usando APENAS os ingredientes informados (considere apenas sal, '' @ [0xE1]
     @ js ''gua e '' @ [0xF3] @ js ''leo como extras impl'' @ [0xED] @ js ''citos se necess'' @ [0xE1]
     @ js ''rio).'' @ [0xA] @ js ''    Regras obrigat'' @ [0xF3] @ js ''rias:'' @ [0xA]
     @ js ''    - Nunca sugira ingredientes que a pessoa n'' @ [0xE3] @ js ''o citou.'' @ [0xA]
     @ js ''    - Nunca ofere'' @ [0xE7] @ js ''a mais de UMA receita.'' @ [0xA]
     @ js ''    - Use preparo simples, caseiro e r'' @ [0xE1] @ js ''pido.'' @ [0xA]
     @ js ''    - Se o usu'' @ [0xE1] @ js ''rio pedir varia'' @ [0xE7, 0xE3] @ js ''o, mude a t'' @ [0xE9]
     @ js ''cnica de preparo (ex: de cozido para frito).'' @ [0xA]
     @ js ''    - Prefer'' @ [0xEA] @ js ''ncia do usu'' @ [0xE1] @ js ''rio: ''
     @ orElse (Some pref) (js ''Nenhuma'') @ js ''.''"

definition recipeContents :: "jsstring \<Rightarrow> bool \<Rightarrow> jsstring" where
  "recipeContents inp isVariation =
     js ''Ingredientes dispon'' @ [0xED] @ js ''veis: '' @ inp @ js ''. ''
     @ (if isVariation then js ''D'' @ [0xEA] @ js '' uma alternativa diferente da anterior.'' else [])"

definition imagePrompt :: "Recipe \<Rightarrow> jsstring" where
  "imagePrompt recipeData =
     js ''Foto profissional de comida: '' @ interpolate (name recipeData)
     @ js '', estilo minimalista, fundo claro.''"

text \<open>
  \<^verbatim>\<open>imgResponse.candidates?.[0]?.content?.parts.find(p => p.inlineData)\<close>: each
  \<^verbatim>\<open>?.\<close> gives \<^verbatim>\<open>undefined\<close> on a missing link, but \<^verbatim>\<open>parts\<close> is read without
  one, so a content without parts throws.
\<close>

definition findInlinePart :: "ImageResponse \<Rightarrow> exn + Part option" where
  "findInlinePart imgResponse =
     (case candidates imgResponse of
        None \<Rightarrow> Inr None
      | Some [] \<Rightarrow> Inr None
      | Some (c # cs) \<Rightarrow>
          (case content c of
             None \<Rightarrow> Inr None
           | Some ct \<Rightarrow>
               (case parts ct of
                  None \<Rightarrow> Inl TypeError
                | Some ps \<Rightarrow> Inr (find (\<lambda>p. inlineData p \<noteq> None) ps))))"

text \<open>
  The inner \<^verbatim>\<open>try\<close> of \<^verbatim>\<open>generateRecipe\<close>, after the image call has settled: the
  recipe with the image attached, or the recipe as it was when the call was rejected,
  gave no inline part, or threw.
\<close>

definition attachImage :: "exn + ImageResponse \<Rightarrow> Recipe \<Rightarrow> Recipe" where
  "attachImage imageOutcome recipeData =
     (case imageOutcome of
        Inl e \<Rightarrow> recipeData
      | Inr imgResponse \<Rightarrow>
          (case findInlinePart imgResponse of
             Inl e \<Rightarrow> recipeData
           | Inr None \<Rightarrow> recipeData
           | Inr (Some part) \<Rightarrow>
               (case inlineData part of
                  None \<Rightarrow> recipeData
                | Some blob \<Rightarrow>
                    recipeData\<lparr>imageUrl := Some (js ''data:image/png;base64,'' @ interpolate (data blob))\<rparr>)))"

text \<open>
  \<^verbatim>\<open>JSON.parse(response.text || "{}") as Recipe\<close>. The library function is the
  parameter \<open>parse\<close>: \<open>None\<close> where it throws \<^verbatim>\<open>SyntaxError\<close>, the object it returns
  otherwise.
\<close>

definition parseResponse :: "(jsstring \<Rightarrow> Recipe option) \<Rightarrow> jsstring option \<Rightarrow> Recipe option" where
  "parseResponse parse responseText = parse (orElse responseText (js ''{}''))"

text \<open>
  One whole run of \<^verbatim>\<open>generateRecipe(isVariation)\<close>, with no other event in between.
  \<open>textOutcome\<close> is how the recipe call settles (rejected, or a response with its
  \<^verbatim>\<open>text\<close>), \<open>imageOutcome\<close> how the image call settles if it is made.
\<close>

definition generateRecipe ::
  "(jsstring \<Rightarrow> Recipe option) \<Rightarrow> bool \<Rightarrow> exn + jsstring option \<Rightarrow> exn + ImageResponse \<Rightarrow> App \<Rightarrow> App" where
  "generateRecipe parse isVariation textOutcome imageOutcome st =
     (if trim (input st) = [] then st
      else
        let st1 = st\<lparr>loading := True\<rparr>;
            st2 = (if \<not> isVariation then st1\<lparr>variationCount := 0\<rparr> else st1);
            st3 = st2\<lparr>sent := sent st2
                    @ [RecipeRequest (recipeContents (input st) isVariation) (systemPrompt (preference st))]\<rparr>;
            st4 = (case textOutcome of
                     Inl error \<Rightarrow> st3
                   | Inr responseText \<Rightarrow>
                       (case parseResponse parse responseText of
                          None \<Rightarrow> st3
                        | Some recipeData \<Rightarrow>
                            (let st5 = st3\<lparr>sent := sent st3 @ [ImageRequest (imagePrompt recipeData)]\<rparr>;
                                 st6 = st5\<lparr>recipe := Some (attachImage imageOutcome recipeData)\<rparr>
                             in if isVariation
                                then st6\<lparr>variationCount := variationCount st6 + 1\<rparr>
                                else st6)))
        in st4\<lparr>loading := False\<rparr>)"

text \<open>The buttons, with the conditions under which each is rendered and enabled.\<close>

definition clickCreate ::
  "(jsstring \<Rightarrow> Recipe option) \<Rightarrow> exn + jsstring option \<Rightarrow> exn + ImageResponse \<Rightarrow> App \<Rightarrow> App" where
  "clickCreate parse textOutcome imageOutcome st =
     (if recipe st = None \<and> \<not> (loading st \<or> trim (input st) = [])
      then generateRecipe parse False textOutcome imageOutcome st
      else st)"

definition clickVariation ::
  "(jsstring \<Rightarrow> Recipe option) \<Rightarrow> exn + jsstring option \<Rightarrow> exn + ImageResponse \<Rightarrow> App \<Rightarrow> App" where
  "clickVariation parse textOutcome imageOutcome st =
     (if recipe st \<noteq> None \<and> \<not> (loading st \<or> variationCount st \<ge> 3)
      then generateRecipe parse True textOutcome imageOutcome st
      else st)"

definition clickNewSearch :: "App \<Rightarrow> App" where
  "clickNewSearch st =
     (if recipe st \<noteq> None then st\<lparr>recipe := None, input := [], preference := []\<rparr> else st)"

definition changeInput :: "jsstring \<Rightarrow> App \<Rightarrow> App" where
  "changeInput v st = (if recipe st = None then st\<lparr>input := v\<rparr> else st)"

section \<open>Export\<close>

text \<open>
  \<^verbatim>\<open>getMarkdownRecipe\<close> on the \<^verbatim>\<open>recipe\<close> state. \<^verbatim>\<open>.map\<close> on a missing
  \<^verbatim>\<open>ingredients\<close> or \<^verbatim>\<open>instructions\<close> throws; an empty \<^verbatim>\<open>tip\<close> is falsy.
\<close>

definition getMarkdownRecipe :: "Recipe option \<Rightarrow> exn + jsstring" where
  "getMarkdownRecipe r =
     (case r of
        None \<Rightarrow> Inr []
      | Some rcp \<Rightarrow>
          (case ingredients rcp of
             None \<Rightarrow> Inl TypeError
           | Some ings \<Rightarrow>
               (case instructions rcp of
                  None \<Rightarrow> Inl TypeError
                | Some steps \<Rightarrow>
                    (let ingredientsText = join [0xA] (map (\<lambda>ing. js ''- '' @ ing) ings);
                         instructionsText =
                           join [0xA] (map (\<lambda>(i, step). numberToString (i + 1) @ js ''. '' @ step)
                                         (enumerate 0 steps));
                         tipSection =
                           (if truthy (tip rcp)
                            then [0xA, 0xA] @ js ''> '' @ [0xD83D, 0xDCA1] @ js '' **Dica do Chef:** ''
                                 @ interpolate (tip rcp)
                            else [])
                     in Inr (js ''# '' @ [0xD83C, 0xDF73] @ js '' '' @ interpolate (name rcp)
                             @ [0xA, 0xA, 0x23F1] @ js '' **Tempo total:** '' @ interpolate (totalTime rcp)
                             @ [0xA, 0xA] @ js ''## '' @ [0xD83D, 0xDED2] @ js '' Ingredientes'' @ [0xA]
                             @ ingredientsText
                             @ [0xA, 0xA] @ js ''## '' @ [0xD83D, 0xDC68, 0x200D, 0xD83C, 0xDF73]
                             @ js '' Modo de Preparo'' @ [0xA]
                             @ instructionsText @ tipSection
                             @ [0xA, 0xA] @ js ''---'' @ [0xA] @ js ''*Gerado por O Que Tem A'' @ [0xED]
                             @ js ''?*'')))))"

section \<open>Vocabulary of the specification\<close>

text \<open>
  The states of a capture session, read off the state of \<^verbatim>\<open>App\<close>: the camera modal is
  closed (\<open>Idle\<close>); it is open and \<^verbatim>\<open>getUserMedia\<close> has not settled (\<open>Acquiring\<close>); it
  shows stream \<open>i\<close> (\<open>Previewing\<close>). A stream is released when all its tracks have ended.
\<close>

definition Idle :: "App \<Rightarrow> bool" where
  "Idle st = (\<not> isCameraOpen st \<and> \<not> isAnalyzing st \<and> videoRef st = None)"

definition Acquiring :: "App \<Rightarrow> bool" where
  "Acquiring st = (isCameraOpen st \<and> \<not> isAnalyzing st \<and> videoRef st = Some None)"

definition Previewing :: "nat \<Rightarrow> App \<Rightarrow> bool" where
  "Previewing i st =
     (isCameraOpen st \<and> \<not> isAnalyzing st \<and> videoRef st = Some (Some i) \<and> i < length (device st))"

definition released :: "nat \<Rightarrow> App \<Rightarrow> bool" where
  "released i st = (i < length (device st) \<and> list_all (\<lambda>track. track = Ended) (device st ! i))"

text \<open>An image response without an image: no first candidate, no content, or no inline part.\<close>

definition noInlineImage :: "ImageResponse \<Rightarrow> bool" where
  "noInlineImage imgResponse =
     (case candidates imgResponse of
        None \<Rightarrow> True
      | Some [] \<Rightarrow> True
      | Some (c # cs) \<Rightarrow>
          (case content c of
             None \<Rightarrow> True
           | Some ct \<Rightarrow>
               (case parts ct of
                  None \<Rightarrow> True
                | Some ps \<Rightarrow> list_all (\<lambda>p. inlineData p = None) ps)))"

text \<open>A run of clicks on the variation button, each with the way its two model calls settle.\<close>

fun variations ::
  "(jsstring \<Rightarrow> Recipe option) \<Rightarrow> ((exn + jsstring option) \<times> (exn + ImageResponse)) list \<Rightarrow> App \<Rightarrow> App" where
  "variations parse [] st = st"
| "variations parse ((textOutcome, imageOutcome) # rest) st =
     variations parse rest (clickVariation parse textOutcome imageOutcome st)"

text \<open>
  The image call is made once for every recipe that \<^verbatim>\<open>generateRecipe\<close> parsed, just
  before the recipe is displayed, so the image requests sent count the recipes produced.
\<close>

fun isImageRequest :: "request \<Rightarrow> bool" where
  "isImageRequest (ImageRequest prompt) = True"
| "isImageRequest (VisionRequest img instruction) = False"
| "isImageRequest (RecipeRequest contents systemInstruction) = False"

definition recipesProduced :: "App \<Rightarrow> nat" where
  "recipesProduced st = length (filter isImageRequest (sent st))"

text \<open>What the \<^verbatim>\<open>try\<close> block of \<^verbatim>\<open>generateRecipe\<close> has in \<^verbatim>\<open>recipeData\<close>, if it gets there.\<close>

definition recipeParsed ::
  "(jsstring \<Rightarrow> Recipe option) \<Rightarrow> exn + jsstring option \<Rightarrow> Recipe option" where
  "recipeParsed parse textOutcome =
     (case textOutcome of Inl e \<Rightarrow> None | Inr responseText \<Rightarrow> parseResponse parse responseText)"

text \<open>The number a string of decimal digits stands for.\<close>

definition isDigit :: "16 word \<Rightarrow> bool" where
  "isDigit c = (0x30 \<le> c \<and> c \<le> 0x39)"

definition decimalValue :: "jsstring \<Rightarrow> nat" where
  "decimalValue s = foldl (\<lambda>acc c. 10 * acc + (unat c - 48)) 0 s"

section \<open>Sample data\<close>

definition omelete :: Recipe where
  "omelete =
     \<lparr>name = Some (js ''Omelete''), ingredients = Some [js ''ovo'', js ''sal''],
      instructions = Some [js ''Bata os ovos'', js ''Frite''], totalTime = Some (js ''10 min''),
      tip = None, imageUrl = None\<rparr>"

definition omeleteJson :: jsstring where
  \<open>omeleteJson =
     js ''{"name":"Omelete","ingredients":["ovo","sal"],"instructions":["Bata os ovos","Frite"],"totalTime":"10 min"}''\<close>

definition emptyObject :: Recipe where
  "emptyObject =
     \<lparr>name = None, ingredients = None, instructions = None, totalTime = None, tip = None,
      imageUrl = None\<rparr>"

text \<open>
  \<^verbatim>\<open>JSON.parse\<close> on the texts of the examples: the empty object, the omelete, and
  \<^verbatim>\<open>SyntaxError\<close> on a text cut off in the middle. It is not used on any other text.
\<close>

definition truncatedJson :: jsstring where
  \<open>truncatedJson = js ''{"name":"Omel''\<close>

definition parseSample :: "jsstring \<Rightarrow> Recipe option" where
  "parseSample s =
     (if s = js ''{}'' then Some emptyObject
      else if s = omeleteJson then Some omelete
      else None)"

definition friedRice :: Recipe where
  "friedRice =
     \<lparr>name = Some (js ''Fried Rice''), ingredients = Some [js ''rice'', js ''egg''],
      instructions = Some [js ''Heat oil'', js ''Fry egg'', js ''Mix rice''],
      totalTime = Some (js ''15 min''), tip = Some (js ''Use day-old rice''), imageUrl = None\<rparr>"

text \<open>The app showing the omelete for the input \<^verbatim>\<open>ovo, sal\<close>, after \<open>n\<close> variations.\<close>

definition showingOmelete :: "nat \<Rightarrow> App" where
  "showingOmelete n = initialApp\<lparr>input := js ''ovo, sal'', recipe := Some omelete, variationCount := n\<rparr>"

text \<open>An image response with one JPEG inline part.\<close>

definition jpegResponse :: ImageResponse where
  "jpegResponse =
     \<lparr>candidates = Some [\<lparr>content = Some \<lparr>parts = Some
        [\<lparr>inlineData = Some \<lparr>data = Some (js ''/9j/4AAQSkZJRg==''),
                                mimeType = Some (js ''image/jpeg'')\<rparr>\<rparr>]\<rparr>\<rparr>]\<rparr>"

section \<open>Auxiliary facts\<close>

subsection \<open>The camera\<close>

lemma list_all_stopped: "list_all (\<lambda>track. track = Ended) (map (\<lambda>track. Ended) ts)"
  by (simp add: list_all_iff)

lemma released_stopTracks:
  "i < length ds \<Longrightarrow> list_all (\<lambda>track. track = Ended) (stopTracks i ds ! i)"
  by (simp add: stopTracks_def list_all_stopped)

lemma length_stopTracks: "length (stopTracks i ds) = length ds"
  by (simp add: stopTracks_def)

lemma clickScan_idle:
  "Idle st \<Longrightarrow> recipe st = None \<Longrightarrow>
   Acquiring (clickScan st) \<and> device (clickScan st) = device st"
  by (simp add: Idle_def Acquiring_def clickScan_def startCamera_begin_def commit_def)

lemma cameraSettled_rejected:
  "Acquiring a \<Longrightarrow> Idle (cameraSettled (Inl e) a) \<and> device (cameraSettled (Inl e) a) = device a"
  by (simp add: Idle_def Acquiring_def cameraSettled_def startCamera_settle_def commit_def)

lemma cameraSettled_stream:
  "Acquiring a \<Longrightarrow>
   Previewing (length (device a)) (cameraSettled (Inr tracks) a)
   \<and> device (cameraSettled (Inr tracks) a) = device a @ [tracks]"
  by (simp add: Previewing_def Acquiring_def cameraSettled_def startCamera_settle_def commit_def)

lemma clickClose_acquiring:
  "Acquiring a \<Longrightarrow> Idle (clickClose a) \<and> device (clickClose a) = device a"
  by (simp add: Idle_def Acquiring_def clickClose_def stopCamera_def commit_def)

lemma clickClose_previewing:
  "Previewing i p \<Longrightarrow> Idle (clickClose p) \<and> released i (clickClose p)"
  by (simp add: Previewing_def Idle_def released_def clickClose_def stopCamera_def commit_def
      released_stopTracks length_stopTracks)

lemma clickCapture_previewing:
  "Previewing i p \<Longrightarrow>
   clickCapture True frame p =
     (True, p\<lparr>isAnalyzing := True, sent := sent p @ [VisionRequest frame visionInstruction]\<rparr>)"
  by (simp add: Previewing_def clickCapture_def captureAndAnalyze_begin_def commit_def)

lemma captureAndAnalyze_resolved:
  assumes "Previewing i p"
  shows "captureAndAnalyze True frame (Inr t) p =
     p\<lparr>input := (if truthy t then mergeIngredients (input p) (orElse t []) else input p),
       sent := sent p @ [VisionRequest frame visionInstruction],
       device := stopTracks i (device p),
       isCameraOpen := False, isAnalyzing := False, videoRef := None\<rparr>"
  using assms
  by (cases t)
     (simp_all add: captureAndAnalyze_def clickCapture_previewing [OF assms] analysisSettled_def
       captureAndAnalyze_settle_def stopCamera_def commit_def Previewing_def truthy_def orElse_def)

lemma captureAndAnalyze_rejected:
  assumes "Previewing i p"
  shows "captureAndAnalyze True frame (Inl e) p =
     p\<lparr>sent := sent p @ [VisionRequest frame visionInstruction],
       alerts := alerts p @ [analysisAlert]\<rparr>"
  using assms
  by (simp add: captureAndAnalyze_def clickCapture_previewing [OF assms] analysisSettled_def
       captureAndAnalyze_settle_def commit_def Previewing_def)

text \<open>
  A stream that arrives after the modal was closed finds no video element: it is neither
  attached nor stopped.
\<close>

lemma late_stream_left_live:
  "Idle (cameraSettled (Inr [Live]) (clickClose (clickScan initialApp)))
   \<and> device (cameraSettled (Inr [Live]) (clickClose (clickScan initialApp))) = [[Live]]"
  by (simp add: Idle_def cameraSettled_def clickClose_def clickScan_def startCamera_begin_def
      startCamera_settle_def stopCamera_def commit_def initialApp_def)

subsection \<open>One run of generateRecipe\<close>

lemma generateRecipe_blank:
  "trim (input st) = [] \<Longrightarrow> generateRecipe parse isVariation textOutcome imageOutcome st = st"
  by (simp add: generateRecipe_def)

lemma generateRecipe_rejected:
  "trim (input st) \<noteq> [] \<Longrightarrow>
   generateRecipe parse isVariation (Inl e) imageOutcome st =
     st\<lparr>loading := False,
        variationCount := (if isVariation then variationCount st else 0),
        sent := sent st @ [RecipeRequest (recipeContents (input st) isVariation)
                             (systemPrompt (preference st))]\<rparr>"
  by (simp add: generateRecipe_def)

lemma generateRecipe_unparsed:
  "trim (input st) \<noteq> [] \<Longrightarrow> parseResponse parse responseText = None \<Longrightarrow>
   generateRecipe parse isVariation (Inr responseText) imageOutcome st =
     st\<lparr>loading := False,
        variationCount := (if isVariation then variationCount st else 0),
        sent := sent st @ [RecipeRequest (recipeContents (input st) isVariation)
                             (systemPrompt (preference st))]\<rparr>"
  by (simp add: generateRecipe_def)

lemma generateRecipe_parsed:
  "trim (input st) \<noteq> [] \<Longrightarrow> parseResponse parse responseText = Some recipeData \<Longrightarrow>
   generateRecipe parse isVariation (Inr responseText) imageOutcome st =
     st\<lparr>loading := False,
        variationCount := (if isVariation then variationCount st + 1 else 0),
        sent := sent st @ [RecipeRequest (recipeContents (input st) isVariation)
                             (systemPrompt (preference st)),
                           ImageRequest (imagePrompt recipeData)],
        recipe := Some (attachImage imageOutcome recipeData)\<rparr>"
  by (simp add: generateRecipe_def)

lemma parseResponse_text:
  "body \<noteq> [] \<Longrightarrow> parseResponse parse (Some body) = parse body"
  by (simp add: parseResponse_def orElse_def)

lemma parseResponse_empty:
  "parseResponse parse None = parse (js ''{}'')" "parseResponse parse (Some []) = parse (js ''{}'')"
  by (simp_all add: parseResponse_def orElse_def)

lemma generateRecipe_count:
  "variationCount (generateRecipe parse isVariation textOutcome imageOutcome st) =
     (if trim (input st) = [] then variationCount st
      else if \<not> isVariation then 0
      else if recipeParsed parse textOutcome = None then variationCount st
      else variationCount st + 1)"
  by (cases textOutcome)
     (auto simp: recipeParsed_def generateRecipe_blank generateRecipe_rejected
       generateRecipe_unparsed generateRecipe_parsed)

lemma generateRecipe_produced:
  "recipesProduced (generateRecipe parse isVariation textOutcome imageOutcome st) =
     (if trim (input st) \<noteq> [] \<and> recipeParsed parse textOutcome \<noteq> None
      then recipesProduced st + 1 else recipesProduced st)"
  by (cases textOutcome; cases "trim (input st) = []")
     (auto simp: recipeParsed_def recipesProduced_def generateRecipe_blank generateRecipe_rejected
       generateRecipe_unparsed generateRecipe_parsed)

lemma generateRecipe_recipe:
  "recipe (generateRecipe parse isVariation textOutcome imageOutcome st) =
     (if trim (input st) \<noteq> [] \<and> recipeParsed parse textOutcome \<noteq> None
      then map_option (attachImage imageOutcome) (recipeParsed parse textOutcome)
      else recipe st)"
  by (cases textOutcome; cases "trim (input st) = []")
     (auto simp: recipeParsed_def generateRecipe_blank generateRecipe_rejected
       generateRecipe_unparsed generateRecipe_parsed)

lemma generateRecipe_input:
  "input (generateRecipe parse isVariation textOutcome imageOutcome st) = input st"
  by (cases textOutcome; cases "trim (input st) = []")
     (auto simp: generateRecipe_def Let_def split: option.splits)

lemma generateRecipe_loading:
  "\<not> loading st \<Longrightarrow> \<not> loading (generateRecipe parse isVariation textOutcome imageOutcome st)"
  by (cases textOutcome; cases "trim (input st) = []")
     (auto simp: generateRecipe_def Let_def split: option.splits)

subsection \<open>The variation button\<close>

lemma clickVariation_closed:
  "variationCount st \<ge> 3 \<Longrightarrow> clickVariation parse textOutcome imageOutcome st = st"
  by (simp add: clickVariation_def)

lemma clickVariation_hidden:
  "recipe st = None \<Longrightarrow> clickVariation parse textOutcome imageOutcome st = st"
  by (simp add: clickVariation_def)

lemma clickVariation_bounded:
  "variationCount st \<le> 3 \<Longrightarrow> variationCount (clickVariation parse textOutcome imageOutcome st) \<le> 3"
  by (simp add: clickVariation_def generateRecipe_count)

lemma clickVariation_balance:
  "recipesProduced (clickVariation parse textOutcome imageOutcome st) + variationCount st
     = recipesProduced st + variationCount (clickVariation parse textOutcome imageOutcome st)"
  by (simp add: clickVariation_def generateRecipe_count generateRecipe_produced)

lemma variations_closed:
  "variationCount st \<ge> 3 \<Longrightarrow> variations parse clicks st = st"
  by (induction clicks arbitrary: st) (auto simp: clickVariation_closed)

lemma variations_hidden:
  "recipe st = None \<Longrightarrow> variations parse clicks st = st"
  by (induction clicks arbitrary: st) (auto simp: clickVariation_hidden)

lemma variations_bounded:
  "variationCount st \<le> 3 \<Longrightarrow> variationCount (variations parse clicks st) \<le> 3"
proof (induction clicks arbitrary: st)
  case Nil
  then show ?case by simp
next
  case (Cons click clicks)
  obtain t i where c: "click = (t, i)" by (cases click)
  from Cons.prems have "variationCount (clickVariation parse t i st) \<le> 3"
    by (rule clickVariation_bounded)
  then show ?case
    using Cons.IH c by simp
qed

lemma variations_balance:
  "recipesProduced (variations parse clicks st) + variationCount st
     = recipesProduced st + variationCount (variations parse clicks st)"
proof (induction clicks arbitrary: st)
  case Nil
  then show ?case by simp
next
  case (Cons click clicks)
  obtain t i where c: "click = (t, i)" by (cases click)
  let ?st1 = "clickVariation parse t i st"
  have "recipesProduced (variations parse clicks ?st1) + variationCount ?st1
          = recipesProduced ?st1 + variationCount (variations parse clicks ?st1)"
    by (rule Cons.IH)
  moreover have "recipesProduced ?st1 + variationCount st = recipesProduced st + variationCount ?st1"
    by (rule clickVariation_balance)
  ultimately show ?case
    using c by simp
qed

lemma variations_produced:
  assumes "variationCount st \<le> 3"
  shows "recipesProduced (variations parse clicks st) + variationCount st \<le> recipesProduced st + 3"
  using variations_balance [of parse clicks st] variations_bounded [OF assms, of parse clicks]
  by linarith

lemma clickCreate_produced:
  assumes "recipe st = None"
  shows "recipesProduced (variations parse clicks (clickCreate parse t0 i0 st)) \<le> recipesProduced st + 4"
proof (cases "\<not> loading st \<and> trim (input st) \<noteq> []")
  case True
  let ?st1 = "generateRecipe parse False t0 i0 st"
  have c: "clickCreate parse t0 i0 st = ?st1"
    using assms True by (simp add: clickCreate_def)
  have v: "variationCount ?st1 = 0"
    using True by (simp add: generateRecipe_count)
  have p: "recipesProduced ?st1 \<le> recipesProduced st + 1"
    by (simp add: generateRecipe_produced)
  have "recipesProduced (variations parse clicks ?st1) + variationCount ?st1 \<le> recipesProduced ?st1 + 3"
    by (rule variations_produced) (simp add: v)
  then show ?thesis
    using c v p by simp
next
  case False
  then have "clickCreate parse t0 i0 st = st"
    by (auto simp: clickCreate_def)
  then show ?thesis
    using assms by (simp add: variations_hidden)
qed

lemma three_variations:
  assumes "recipe st \<noteq> None" "\<not> loading st" "trim (input st) \<noteq> []" "variationCount st = 0"
    and "parseResponse parse b1 = Some r1" "parseResponse parse b2 = Some r2"
      "parseResponse parse b3 = Some r3"
  shows "variationCount (variations parse [(Inr b1, i1), (Inr b2, i2), (Inr b3, i3)] st) = 3"
proof -
  let ?s1 = "clickVariation parse (Inr b1) i1 st"
  let ?s2 = "clickVariation parse (Inr b2) i2 ?s1"
  let ?s3 = "clickVariation parse (Inr b3) i3 ?s2"
  have e1: "?s1 = generateRecipe parse True (Inr b1) i1 st"
    using assms by (simp add: clickVariation_def)
  have s1: "variationCount ?s1 = 1" "recipe ?s1 \<noteq> None" "\<not> loading ?s1" "trim (input ?s1) \<noteq> []"
    using assms unfolding e1
    by (simp_all add: generateRecipe_count generateRecipe_recipe generateRecipe_input
        generateRecipe_loading recipeParsed_def)
  have e2: "?s2 = generateRecipe parse True (Inr b2) i2 ?s1"
    using s1 by (simp add: clickVariation_def)
  have s2: "variationCount ?s2 = 2" "recipe ?s2 \<noteq> None" "\<not> loading ?s2" "trim (input ?s2) \<noteq> []"
    using assms s1 unfolding e2
    by (simp_all add: generateRecipe_count generateRecipe_recipe generateRecipe_input
        generateRecipe_loading recipeParsed_def)
  have e3: "?s3 = generateRecipe parse True (Inr b3) i3 ?s2"
    using s2 by (simp add: clickVariation_def)
  have "variationCount ?s3 = 3"
    using assms s2 unfolding e3
    by (simp add: generateRecipe_count recipeParsed_def)
  then show ?thesis by simp
qed

subsection \<open>Responses without an image\<close>

lemma find_inline_none:
  "list_all (\<lambda>p. inlineData p = None) ps \<Longrightarrow> find (\<lambda>p. inlineData p \<noteq> None) ps = None"
  by (induction ps) auto

lemma findInlinePart_none:
  assumes "noInlineImage imgResponse"
  shows "findInlinePart imgResponse = Inr None \<or> findInlinePart imgResponse = Inl TypeError"
proof (cases "candidates imgResponse")
  case None
  then show ?thesis by (simp add: findInlinePart_def)
next
  case (Some cs)
  show ?thesis
  proof (cases cs)
    case Nil
    with Some show ?thesis by (simp add: findInlinePart_def)
  next
    case (Cons c rest)
    show ?thesis
    proof (cases "content c")
      case None
      with Some Cons show ?thesis by (simp add: findInlinePart_def)
    next
      case ct: (Some ct)
      show ?thesis
      proof (cases "parts ct")
        case None
        with Some Cons ct show ?thesis by (simp add: findInlinePart_def)
      next
        case ps: (Some ps)
        from assms Some Cons ct ps have "list_all (\<lambda>p. inlineData p = None) ps"
          by (simp add: noInlineImage_def)
        then have "find (\<lambda>p. inlineData p \<noteq> None) ps = None"
          by (rule find_inline_none)
        with Some Cons ct ps show ?thesis by (simp add: findInlinePart_def)
      qed
    qed
  qed
qed

lemma attachImage_none:
  assumes "imageOutcome = Inl e \<or> (imageOutcome = Inr imgResponse \<and> noInlineImage imgResponse)"
  shows "attachImage imageOutcome recipeData = recipeData"
  using assms
proof
  assume "imageOutcome = Inl e"
  then show ?thesis by (simp add: attachImage_def)
next
  assume h: "imageOutcome = Inr imgResponse \<and> noInlineImage imgResponse"
  then have "findInlinePart imgResponse = Inr None \<or> findInlinePart imgResponse = Inl TypeError"
    by (simp add: findInlinePart_none)
  then show ?thesis
    using h by (auto simp: attachImage_def)
qed

subsection \<open>The samples\<close>

lemma trim_ovo_sal: "trim (js ''ovo, sal'') \<noteq> []"
  by (simp add: trim_def js_def isWhiteSpace_def)

lemma parseSample_truncated: "parseSample truncatedJson = None"
  by (simp add: parseSample_def truncatedJson_def omeleteJson_def js_def)

lemma parseSample_empty: "parseSample (js ''{}'') = Some emptyObject"
  by (simp add: parseSample_def)

lemma parseSample_omelete: "parseSample omeleteJson = Some omelete"
  by (simp add: parseSample_def omeleteJson_def js_def)

lemma showingOmelete_facts:
  "recipe (showingOmelete n) = Some omelete" "\<not> loading (showingOmelete n)"
  "trim (input (showingOmelete n)) \<noteq> []" "variationCount (showingOmelete n) = n"
  "recipesProduced (showingOmelete n) = 0"
  by (simp_all add: showingOmelete_def initialApp_def trim_ovo_sal recipesProduced_def)

lemma parseResponse_omelete: "parseResponse parseSample (Some omeleteJson) = Some omelete"
  by (simp add: parseResponse_def orElse_def parseSample_def omeleteJson_def js_def)

lemma parseResponse_truncated: "parseResponse parseSample (Some truncatedJson) = None"
  by (simp add: parseResponse_def orElse_def parseSample_def truncatedJson_def omeleteJson_def js_def)

lemma recipeParsed_sample:
  "recipeParsed parseSample (Inr (Some omeleteJson)) = Some omelete"
  "recipeParsed parseSample (Inl e) = None"
  "recipeParsed parseSample (Inr (Some truncatedJson)) = None"
  by (simp_all add: recipeParsed_def parseResponse_omelete parseResponse_truncated)

subsection \<open>Decimal numerals\<close>

lemma unat_digit: "d < 10 \<Longrightarrow> unat (digit d) = 48 + d"
  unfolding digit_def by (subst unat_of_nat) simp

lemma isDigit_digit: "d < 10 \<Longrightarrow> isDigit (digit d)"
  by (simp add: isDigit_def word_le_nat_alt unat_digit)

lemma decimalValue_snoc: "decimalValue (s @ [c]) = 10 * decimalValue s + (unat c - 48)"
  by (simp add: decimalValue_def)

lemma decimalValue_numberToString: "decimalValue (numberToString n) = n"
proof (induction n rule: numberToString.induct)
  case (1 n)
  show ?case
  proof (cases "n < 10")
    case True
    then show ?thesis
      by (simp add: numberToString.simps [of n] decimalValue_def unat_digit)
  next
    case False
    then have "decimalValue (numberToString (n div 10)) = n div 10"
      by (rule "1.IH")
    then show ?thesis
      using False by (simp add: numberToString.simps [of n] decimalValue_snoc unat_digit)
  qed
qed

lemma digits_numberToString: "list_all isDigit (numberToString n)"
proof (induction n rule: numberToString.induct)
  case (1 n)
  show ?case
  proof (cases "n < 10")
    case True
    then show ?thesis
      by (simp add: numberToString.simps [of n] isDigit_digit)
  next
    case False
    then have "list_all isDigit (numberToString (n div 10))"
      by (rule "1.IH")
    then show ?thesis
      using False by (simp add: numberToString.simps [of n] isDigit_digit)
  qed
qed

section \<open>Capture session: exits\<close>

text \<open>
  C1, as the code has it. From an idle app, a capture session ends idle with nothing left
  live when the device refuses the camera (no stream was handed out), when the user closes
  the modal before the stream arrives or while it is previewed, and when the analysis
  succeeds: in the last two cases every track of the session's stream has been stopped.
  When the analysis fails the session does not end: the modal stays open on the same
  stream, untouched and ready for another capture, and ends as above when the user then
  closes it or an analysis succeeds.
\<close>

theorem capture_session_exits:
  assumes "Idle st" and "recipe st = None"
  shows "let a = clickScan st; p = cameraSettled (Inr tracks) a; n = length (device st);
             f = captureAndAnalyze True frame (Inl e') p
         in Idle (cameraSettled (Inl e) a) \<and> device (cameraSettled (Inl e) a) = device st
          \<and> Idle (clickClose a) \<and> device (clickClose a) = device st
          \<and> Previewing n p \<and> device p = device st @ [tracks]
          \<and> Idle (clickClose p) \<and> released n (clickClose p)
          \<and> Idle (captureAndAnalyze True frame (Inr t) p)
          \<and> released n (captureAndAnalyze True frame (Inr t) p)
          \<and> Previewing n f \<and> device f = device st @ [tracks]
          \<and> alerts f = alerts st @ [analysisAlert]
          \<and> Idle (clickClose f) \<and> released n (clickClose f)
          \<and> Idle (captureAndAnalyze True frame' (Inr t') f)
          \<and> released n (captureAndAnalyze True frame' (Inr t') f)"
proof -
  let ?a = "clickScan st"
  let ?p = "cameraSettled (Inr tracks) ?a"
  let ?n = "length (device st)"
  have a: "Acquiring ?a" and da: "device ?a = device st"
    using clickScan_idle [OF assms] by simp_all
  have p: "Previewing ?n ?p" and dp: "device ?p = device st @ [tracks]"
    using cameraSettled_stream [OF a, of tracks] by (simp_all add: da)
  have ok: "Idle (captureAndAnalyze True frame (Inr t) ?p)
            \<and> released ?n (captureAndAnalyze True frame (Inr t) ?p)"
    using p
    by (simp add: captureAndAnalyze_resolved [OF p] Idle_def released_def Previewing_def
        length_stopTracks released_stopTracks)
  let ?f = "captureAndAnalyze True frame (Inl e') ?p"
  have f: "Previewing ?n ?f" and df: "device ?f = device st @ [tracks]"
    using p by (simp_all add: captureAndAnalyze_rejected [OF p] Previewing_def dp)
  have "alerts ?p = alerts st"
    using assms
    by (simp add: Idle_def cameraSettled_def clickScan_def startCamera_begin_def
        startCamera_settle_def commit_def)
  then have af: "alerts ?f = alerts st @ [analysisAlert]"
    by (simp add: captureAndAnalyze_rejected [OF p])
  have retry: "Idle (captureAndAnalyze True frame' (Inr t') ?f)
               \<and> released ?n (captureAndAnalyze True frame' (Inr t') ?f)"
    using f
    by (simp add: captureAndAnalyze_resolved [OF f] Idle_def released_def Previewing_def
        length_stopTracks released_stopTracks)
  show ?thesis
    unfolding Let_def
    using cameraSettled_rejected [OF a, of e] clickClose_acquiring [OF a]
      clickClose_previewing [OF p] clickClose_previewing [OF f] p dp ok f df af retry
    by (simp add: da)
qed

theorem capture_session_exits_witness:
  "Idle initialApp \<and> recipe initialApp = None \<and>
   (let a = clickScan initialApp; p = cameraSettled (Inr [Live]) a
    in Idle (cameraSettled (Inl Rejected) a) \<and> Idle (clickClose a)
     \<and> Previewing 0 p \<and> device p = [[Live]]
     \<and> device (clickClose p) = [[Ended]]
     \<and> Idle (captureAndAnalyze True (js ''QUJD'') (Inr (Some (js ''ovo, arroz''))) p)
     \<and> device (captureAndAnalyze True (js ''QUJD'') (Inr (Some (js ''ovo, arroz''))) p) = [[Ended]]
     \<and> Previewing 0 (captureAndAnalyze True (js ''QUJD'') (Inl Rejected) p))"
proof -
  have h: "Idle initialApp"
    by (simp add: Idle_def initialApp_def)
  have d: "device initialApp = []" and r: "recipe initialApp = None"
    by (simp_all add: initialApp_def)
  have c: "device (clickClose (cameraSettled (Inr [Live]) (clickScan initialApp))) = [[Ended]]"
    by (simp add: clickClose_def cameraSettled_def clickScan_def startCamera_begin_def
        startCamera_settle_def stopCamera_def stopTracks_def commit_def initialApp_def)
  have e: "device (captureAndAnalyze True (js ''QUJD'') (Inr (Some (js ''ovo, arroz'')))
             (cameraSettled (Inr [Live]) (clickScan initialApp))) = [[Ended]]"
    by (simp add: captureAndAnalyze_def clickCapture_def captureAndAnalyze_begin_def
        analysisSettled_def captureAndAnalyze_settle_def cameraSettled_def clickScan_def
        startCamera_begin_def startCamera_settle_def stopCamera_def stopTracks_def commit_def
        initialApp_def orElse_def js_def)
  show ?thesis
    using h r c e
      capture_session_exits [OF h r, of "[Live]" "js ''QUJD''" Rejected Rejected
        "Some (js ''ovo, arroz'')" "js ''QUJD''" None]
    by (simp add: Let_def d)
qed

text \<open>
  C1 as stated fails on the failed analysis: after it the modal is still open and the only
  track of the stream is still live.
\<close>

theorem failed_analysis_keeps_camera_counterexample:
  "isCameraOpen (captureAndAnalyze True (js ''QUJD'') (Inl Rejected)
              (cameraSettled (Inr [Live]) (clickScan initialApp)))
   \<and> device (captureAndAnalyze True (js ''QUJD'') (Inl Rejected)
              (cameraSettled (Inr [Live]) (clickScan initialApp))) = [[Live]]
   \<and> \<not> Idle (captureAndAnalyze True (js ''QUJD'') (Inl Rejected)
              (cameraSettled (Inr [Live]) (clickScan initialApp)))
   \<and> \<not> released 0 (captureAndAnalyze True (js ''QUJD'') (Inl Rejected)
              (cameraSettled (Inr [Live]) (clickScan initialApp)))"
  by (simp add: Idle_def released_def captureAndAnalyze_def clickCapture_def captureAndAnalyze_begin_def
        analysisSettled_def captureAndAnalyze_settle_def cameraSettled_def clickScan_def
        startCamera_begin_def startCamera_settle_def commit_def initialApp_def)

text \<open>
  C10. When the vision call answers with no text or an empty one, the ingredient field
  is left as it was, no alert is shown, and the session closes with its stream released.
\<close>

theorem empty_detection_leaves_input:
  assumes "Previewing i st" and "t = None \<or> t = Some []"
  shows "input (captureAndAnalyze True frame (Inr t) st) = input st
         \<and> Idle (captureAndAnalyze True frame (Inr t) st)
         \<and> released i (captureAndAnalyze True frame (Inr t) st)
         \<and> alerts (captureAndAnalyze True frame (Inr t) st) = alerts st"
proof -
  have "\<not> truthy t"
    using assms(2) by (auto simp: truthy_def)
  then show ?thesis
    using assms(1)
    by (simp add: captureAndAnalyze_resolved [OF assms(1)] Idle_def released_def Previewing_def
        length_stopTracks released_stopTracks)
qed

theorem empty_detection_leaves_input_witness:
  "Previewing 0 (cameraSettled (Inr [Live]) (clickScan (initialApp\<lparr>input := js ''egg, rice''\<rparr>)))
   \<and> input (captureAndAnalyze True (js ''QUJD'') (Inr (Some []))
              (cameraSettled (Inr [Live]) (clickScan (initialApp\<lparr>input := js ''egg, rice''\<rparr>))))
       = js ''egg, rice''
   \<and> Idle (captureAndAnalyze True (js ''QUJD'') (Inr None)
              (cameraSettled (Inr [Live]) (clickScan (initialApp\<lparr>input := js ''egg, rice''\<rparr>))))
   \<and> released 0 (captureAndAnalyze True (js ''QUJD'') (Inr None)
              (cameraSettled (Inr [Live]) (clickScan (initialApp\<lparr>input := js ''egg, rice''\<rparr>))))"
proof -
  let ?p = "cameraSettled (Inr [Live]) (clickScan (initialApp\<lparr>input := js ''egg, rice''\<rparr>))"
  have p: "Previewing 0 ?p"
    by (simp add: Previewing_def cameraSettled_def clickScan_def startCamera_begin_def
        startCamera_settle_def commit_def initialApp_def)
  have i: "input ?p = js ''egg, rice''"
    by (simp add: cameraSettled_def clickScan_def startCamera_begin_def
        startCamera_settle_def commit_def initialApp_def)
  show ?thesis
    using p i
      empty_detection_leaves_input [OF p, of "Some []" "js ''QUJD''"]
      empty_detection_leaves_input [OF p, of None "js ''QUJD''"]
    by simp
qed

section \<open>Ingredient merge\<close>

text \<open>
  C6. Merging a detected list \<open>d\<close> into a non-empty field \<open>p\<close> gives \<open>p\<close>, a comma and a
  space, then \<open>d\<close>; into an empty field it gives \<open>d\<close>; nothing is compared or removed.
  This is what a capture with a non-empty detection leaves in the field.
\<close>

theorem merge_policy:
  "(p \<noteq> [] \<longrightarrow> mergeIngredients p d = p @ js '', '' @ d)
   \<and> mergeIngredients [] d = d
   \<and> (Previewing i st \<and> d \<noteq> [] \<longrightarrow>
        input (captureAndAnalyze True frame (Inr (Some d)) st) = mergeIngredients (input st) d)"
proof -
  have "input (captureAndAnalyze True frame (Inr (Some d)) st) = mergeIngredients (input st) d"
    if "Previewing i st" "d \<noteq> []"
    using that by (simp add: captureAndAnalyze_resolved [OF that(1)] truthy_def orElse_def)
  then show ?thesis
    by (simp add: mergeIngredients_def)
qed

theorem merge_policy_witness:
  "js ''egg, rice'' \<noteq> []
   \<and> mergeIngredients (js ''egg, rice'') (js ''tomato, onion'') = js ''egg, rice, tomato, onion''
   \<and> mergeIngredients [] (js ''tomato, onion'') = js ''tomato, onion''
   \<and> mergeIngredients (js ''egg'') (js ''egg'') = js ''egg, egg''
   \<and> Previewing 0 (cameraSettled (Inr [Live]) (clickScan (initialApp\<lparr>input := js ''egg, rice''\<rparr>)))
   \<and> input (captureAndAnalyze True (js ''QUJD'') (Inr (Some (js ''tomato, onion'')))
              (cameraSettled (Inr [Live]) (clickScan (initialApp\<lparr>input := js ''egg, rice''\<rparr>))))
       = js ''egg, rice, tomato, onion''"
proof -
  let ?p = "cameraSettled (Inr [Live]) (clickScan (initialApp\<lparr>input := js ''egg, rice''\<rparr>))"
  have p: "Previewing 0 ?p"
    by (simp add: Previewing_def cameraSettled_def clickScan_def startCamera_begin_def
        startCamera_settle_def commit_def initialApp_def)
  have i: "input ?p = js ''egg, rice''"
    by (simp add: cameraSettled_def clickScan_def startCamera_begin_def
        startCamera_settle_def commit_def initialApp_def)
  have n: "js ''egg, rice'' \<noteq> []" "js ''tomato, onion'' \<noteq> []" "js ''egg'' \<noteq> []"
    by (simp_all add: js_def)
  have a: "js ''egg, rice'' @ js '', '' @ js ''tomato, onion'' = js ''egg, rice, tomato, onion''"
    "js ''egg'' @ js '', '' @ js ''egg'' = js ''egg, egg''"
    by (simp_all add: js_def)
  show ?thesis
    using p i n a
      merge_policy [of "js ''egg, rice''" "js ''tomato, onion''" 0 ?p "js ''QUJD''"]
      merge_policy [of "js ''egg''" "js ''egg''" 0 ?p "js ''QUJD''"]
    by simp
qed

section \<open>Recipe generation: failures\<close>

text \<open>
  C2, as the code has it. When the recipe call is rejected, or its text is not empty and
  \<^verbatim>\<open>JSON.parse\<close> throws on it, \<^verbatim>\<open>generateRecipe\<close> leaves the displayed recipe as it
  was: nothing changes but \<^verbatim>\<open>loading\<close>, the request sent and, for a fresh generation,
  the counter set to 0; no image is asked for and no variation is counted.
\<close>

theorem failed_generation_keeps_recipe:
  assumes "textOutcome = Inl e \<or> (textOutcome = Inr (Some body) \<and> body \<noteq> [] \<and> parse body = None)"
  shows "generateRecipe parse isVariation textOutcome imageOutcome st =
           (if trim (input st) = [] then st
            else st\<lparr>loading := False,
                    variationCount := (if isVariation then variationCount st else 0),
                    sent := sent st @ [RecipeRequest (recipeContents (input st) isVariation)
                                         (systemPrompt (preference st))]\<rparr>)
         \<and> recipe (generateRecipe parse isVariation textOutcome imageOutcome st) = recipe st
         \<and> recipesProduced (generateRecipe parse isVariation textOutcome imageOutcome st)
             = recipesProduced st"
proof (cases "trim (input st) = []")
  case True
  then show ?thesis by (simp add: generateRecipe_blank)
next
  case False
  from assms show ?thesis
  proof
    assume "textOutcome = Inl e"
    then show ?thesis
      using False by (simp add: generateRecipe_rejected recipesProduced_def)
  next
    assume h: "textOutcome = Inr (Some body) \<and> body \<noteq> [] \<and> parse body = None"
    then have "parseResponse parse (Some body) = None"
      by (simp add: parseResponse_text)
    then show ?thesis
      using False h by (simp add: generateRecipe_unparsed recipesProduced_def)
  qed
qed

theorem failed_generation_keeps_recipe_witness:
  "truncatedJson \<noteq> [] \<and> parseSample truncatedJson = None
   \<and> recipe (generateRecipe parseSample True (Inr (Some truncatedJson)) (Inl Rejected) (showingOmelete 1))
       = Some omelete
   \<and> variationCount (generateRecipe parseSample True (Inr (Some truncatedJson)) (Inl Rejected) (showingOmelete 1))
       = 1
   \<and> recipe (generateRecipe parseSample True (Inl Rejected) (Inl Rejected) (showingOmelete 1))
       = Some omelete"
proof -
  have n: "truncatedJson \<noteq> []"
    by (simp add: truncatedJson_def js_def)
  have t: "trim (input (showingOmelete 1)) \<noteq> []"
    by (simp add: showingOmelete_def trim_ovo_sal)
  show ?thesis
    using n t parseSample_truncated
      failed_generation_keeps_recipe [of "Inr (Some truncatedJson)" Rejected truncatedJson parseSample
        True "Inl Rejected" "showingOmelete 1"]
      failed_generation_keeps_recipe [of "Inl Rejected" Rejected truncatedJson parseSample
        True "Inl Rejected" "showingOmelete 1"]
    by (simp add: showingOmelete_def)
qed

text \<open>
  C2 as stated fails on a missing response body: it is read as \<^verbatim>\<open>"{}"\<close>, and the empty
  object replaces the omelete on display and counts as a variation.
\<close>

theorem empty_body_replaces_recipe_counterexample:
  "recipe (generateRecipe parseSample True (Inr None) (Inl Rejected) (showingOmelete 1))
     = Some emptyObject
   \<and> recipe (generateRecipe parseSample True (Inr None) (Inl Rejected) (showingOmelete 1))
     \<noteq> recipe (showingOmelete 1)
   \<and> variationCount (generateRecipe parseSample True (Inr None) (Inl Rejected) (showingOmelete 1))
     = 2"
  using trim_ovo_sal
  by (simp add: generateRecipe_def parseResponse_empty parseSample_empty attachImage_def
      showingOmelete_def emptyObject_def omelete_def)

section \<open>Variations\<close>

text \<open>
  C3. Once the counter has reached 3 a click on the variation button changes nothing: no
  request is sent. Three parsed variations from a counter of 0 bring it to 3, where that
  holds. Whatever the clicks and the way their calls settle, the counter never passes 3
  and the recipes produced by variations never exceed the slots left; together with the
  original generation, a thread produces at most 4 recipes.
\<close>

theorem variation_bound:
  "(3 \<le> variationCount st \<longrightarrow> clickVariation parse textOutcome imageOutcome st = st)
   \<and> (variationCount st \<le> 3 \<longrightarrow>
        variationCount (variations parse clicks st) \<le> 3
        \<and> recipesProduced (variations parse clicks st) + variationCount st \<le> recipesProduced st + 3)
   \<and> (recipe st = None \<longrightarrow>
        recipesProduced (variations parse clicks (clickCreate parse t0 i0 st)) \<le> recipesProduced st + 4)
   \<and> (recipe st \<noteq> None \<and> \<not> loading st \<and> trim (input st) \<noteq> [] \<and> variationCount st = 0
       \<and> parseResponse parse b1 = Some r1 \<and> parseResponse parse b2 = Some r2
       \<and> parseResponse parse b3 = Some r3 \<longrightarrow>
        variationCount (variations parse [(Inr b1, i1), (Inr b2, i2), (Inr b3, i3)] st) = 3
        \<and> clickVariation parse textOutcome imageOutcome
            (variations parse [(Inr b1, i1), (Inr b2, i2), (Inr b3, i3)] st)
          = variations parse [(Inr b1, i1), (Inr b2, i2), (Inr b3, i3)] st)"
proof -
  have a: "clickVariation parse textOutcome imageOutcome st = st" if "3 \<le> variationCount st"
    using that by (rule clickVariation_closed)
  have b: "variationCount (variations parse clicks st) \<le> 3
           \<and> recipesProduced (variations parse clicks st) + variationCount st \<le> recipesProduced st + 3"
    if "variationCount st \<le> 3"
    using that variations_bounded variations_produced by blast
  have c: "recipesProduced (variations parse clicks (clickCreate parse t0 i0 st)) \<le> recipesProduced st + 4"
    if "recipe st = None"
    using that by (rule clickCreate_produced)
  have d: "variationCount (variations parse [(Inr b1, i1), (Inr b2, i2), (Inr b3, i3)] st) = 3
           \<and> clickVariation parse textOutcome imageOutcome
               (variations parse [(Inr b1, i1), (Inr b2, i2), (Inr b3, i3)] st)
             = variations parse [(Inr b1, i1), (Inr b2, i2), (Inr b3, i3)] st"
    if h: "recipe st \<noteq> None \<and> \<not> loading st \<and> trim (input st) \<noteq> [] \<and> variationCount st = 0
       \<and> parseResponse parse b1 = Some r1 \<and> parseResponse parse b2 = Some r2
       \<and> parseResponse parse b3 = Some r3"
  proof -
    have "variationCount (variations parse [(Inr b1, i1), (Inr b2, i2), (Inr b3, i3)] st) = 3"
      using h three_variations [of st parse b1 r1 b2 r2 b3 r3 i1 i2 i3] by blast
    then show ?thesis
      by (simp add: clickVariation_closed)
  qed
  show ?thesis
    using a b c d by blast
qed

theorem variation_bound_witness:
  "3 \<le> variationCount (showingOmelete 3)
   \<and> clickVariation parseSample (Inr (Some omeleteJson)) (Inl Rejected) (showingOmelete 3)
       = showingOmelete 3
   \<and> recipe (showingOmelete 0) \<noteq> None \<and> \<not> loading (showingOmelete 0)
   \<and> trim (input (showingOmelete 0)) \<noteq> [] \<and> variationCount (showingOmelete 0) = 0
   \<and> parseResponse parseSample (Some omeleteJson) = Some omelete
   \<and> variationCount (variations parseSample
         [(Inr (Some omeleteJson), Inl Rejected), (Inr (Some omeleteJson), Inl Rejected),
          (Inr (Some omeleteJson), Inl Rejected)] (showingOmelete 0)) = 3
   \<and> recipesProduced (variations parseSample
         [(Inr (Some omeleteJson), Inl Rejected), (Inr (Some omeleteJson), Inl Rejected),
          (Inr (Some omeleteJson), Inl Rejected), (Inr (Some omeleteJson), Inl Rejected)]
         (showingOmelete 0)) \<le> 3
   \<and> recipe initialApp = None
   \<and> recipesProduced (variations parseSample
         [(Inr (Some omeleteJson), Inl Rejected), (Inr (Some omeleteJson), Inl Rejected),
          (Inr (Some omeleteJson), Inl Rejected), (Inr (Some omeleteJson), Inl Rejected)]
         (clickCreate parseSample (Inr (Some omeleteJson)) (Inl Rejected)
            (changeInput (js ''ovo, sal'') initialApp))) \<le> 4"
proof -
  let ?t = "Inr (Some omeleteJson) :: exn + jsstring option"
  let ?i = "Inl Rejected :: exn + ImageResponse"
  let ?b = "Some omeleteJson"
  let ?form = "changeInput (js ''ovo, sal'') initialApp"
  have f: "recipe ?form = None" "recipesProduced ?form = 0" "recipe initialApp = None"
    by (simp_all add: changeInput_def initialApp_def recipesProduced_def)
  note s0 = showingOmelete_facts [of 0]
  note s3 = showingOmelete_facts [of 3]
  have closed: "clickVariation parseSample ?t ?i (showingOmelete 3) = showingOmelete 3"
    using s3 variation_bound [of "showingOmelete 3" parseSample ?t ?i "[]" ?t ?i ?b omelete ?b omelete
        ?b omelete ?i ?i ?i]
    by simp
  have three: "variationCount (variations parseSample [(?t, ?i), (?t, ?i), (?t, ?i)] (showingOmelete 0)) = 3"
    using s0 parseResponse_omelete
      variation_bound [of "showingOmelete 0" parseSample ?t ?i "[]" ?t ?i ?b omelete ?b omelete
        ?b omelete ?i ?i ?i]
    by blast
  have four: "recipesProduced (variations parseSample [(?t, ?i), (?t, ?i), (?t, ?i), (?t, ?i)]
                (showingOmelete 0)) \<le> 3"
    using s0
      variation_bound [of "showingOmelete 0" parseSample ?t ?i "[(?t, ?i), (?t, ?i), (?t, ?i), (?t, ?i)]"
        ?t ?i ?b omelete ?b omelete ?b omelete ?i ?i ?i]
    by (simp del: variations.simps)
  have thread: "recipesProduced (variations parseSample [(?t, ?i), (?t, ?i), (?t, ?i), (?t, ?i)]
                  (clickCreate parseSample ?t ?i ?form)) \<le> 4"
    using f
      variation_bound [of ?form parseSample ?t ?i "[(?t, ?i), (?t, ?i), (?t, ?i), (?t, ?i)]"
        ?t ?i ?b omelete ?b omelete ?b omelete ?i ?i ?i]
    by (simp del: variations.simps)
  show ?thesis
    using s0 s3 parseResponse_omelete f closed three four thread
    by (simp del: variations.simps)
qed

text \<open>
  C4, as the code has it. A run of \<^verbatim>\<open>generateRecipe\<close> on a non-blank input sets the
  counter to 0 when it is not a variation; when it is one, it adds 1 if a recipe was
  parsed and leaves the counter as it was if the call was rejected or the parse threw.
  The counter grows only in a variation whose recipe is displayed.
\<close>

theorem variation_counter_update:
  "variationCount (generateRecipe parse isVariation textOutcome imageOutcome st) =
     (if trim (input st) = [] then variationCount st
      else if \<not> isVariation then 0
      else if recipeParsed parse textOutcome = None then variationCount st
      else variationCount st + 1)
   \<and> (variationCount st < variationCount (generateRecipe parse isVariation textOutcome imageOutcome st)
        \<longrightarrow> isVariation \<and> recipeParsed parse textOutcome \<noteq> None
           \<and> recipe (generateRecipe parse isVariation textOutcome imageOutcome st)
               = map_option (attachImage imageOutcome) (recipeParsed parse textOutcome))"
  by (auto simp: generateRecipe_count generateRecipe_recipe split: if_splits)

theorem variation_counter_update_witness:
  "variationCount (generateRecipe parseSample True (Inr (Some omeleteJson)) (Inl Rejected)
      (showingOmelete 1)) = 2
   \<and> recipe (generateRecipe parseSample True (Inr (Some omeleteJson)) (Inl Rejected)
      (showingOmelete 1)) = Some omelete
   \<and> variationCount (generateRecipe parseSample True (Inl Rejected) (Inl Rejected)
      (showingOmelete 1)) = 1
   \<and> variationCount (generateRecipe parseSample True (Inr (Some truncatedJson)) (Inl Rejected)
      (showingOmelete 1)) = 1
   \<and> variationCount (generateRecipe parseSample False (Inl Rejected) (Inl Rejected)
      (showingOmelete 2)) = 0"
proof -
  note p = recipeParsed_sample
  have a: "attachImage (Inl Rejected) omelete = omelete"
    by (simp add: attachImage_def)
  show ?thesis
    using p a showingOmelete_facts [of 1] showingOmelete_facts [of 2]
      variation_counter_update [of parseSample True "Inr (Some omeleteJson)" "Inl Rejected" "showingOmelete 1"]
      variation_counter_update [of parseSample True "Inl Rejected" "Inl Rejected" "showingOmelete 1"]
      variation_counter_update [of parseSample True "Inr (Some truncatedJson)" "Inl Rejected" "showingOmelete 1"]
      variation_counter_update [of parseSample False "Inl Rejected" "Inl Rejected" "showingOmelete 2"]
    by simp
qed

text \<open>
  C4 as stated fails on a variation whose response has no body, or an empty one: nothing
  that satisfies the schema came back, and the counter still goes from 1 to 2.
\<close>

theorem empty_body_counts_variation_counterexample:
  "variationCount (showingOmelete 1) = 1
   \<and> variationCount (generateRecipe parseSample True (Inr None) (Inl Rejected) (showingOmelete 1))
       = 2
   \<and> variationCount (generateRecipe parseSample True (Inr (Some [])) (Inl Rejected) (showingOmelete 1))
       = 2"
  using trim_ovo_sal
  by (simp add: generateRecipe_def parseResponse_empty parseSample_empty showingOmelete_def
      initialApp_def)

text \<open>
  C5, as the code has it. The new-search button clears the recipe, the ingredient text
  and the preference and leaves the counter as it was. With no recipe on display the
  variation button is not there, and the next generation, started from the form on a
  non-blank input, sets the counter to 0.
\<close>

theorem new_search_keeps_counter:
  "variationCount (clickNewSearch st) = variationCount st
   \<and> (recipe st \<noteq> None \<longrightarrow>
        recipe (clickNewSearch st) = None \<and> input (clickNewSearch st) = []
        \<and> preference (clickNewSearch st) = []
        \<and> clickVariation parse textOutcome imageOutcome (clickNewSearch st) = clickNewSearch st
        \<and> (\<not> loading st \<and> trim v \<noteq> [] \<longrightarrow>
             variationCount (clickCreate parse textOutcome imageOutcome
                (changeInput v (clickNewSearch st))) = 0))"
  by (simp add: clickNewSearch_def clickVariation_def clickCreate_def changeInput_def
      generateRecipe_count)

theorem new_search_keeps_counter_witness:
  "recipe (showingOmelete 3) \<noteq> None \<and> \<not> loading (showingOmelete 3) \<and> trim (js ''ovo, sal'') \<noteq> []
   \<and> variationCount (clickNewSearch (showingOmelete 3)) = 3
   \<and> recipe (clickNewSearch (showingOmelete 3)) = None
   \<and> variationCount (clickCreate parseSample (Inr (Some omeleteJson)) (Inl Rejected)
        (changeInput (js ''ovo, sal'') (clickNewSearch (showingOmelete 3)))) = 0"
  using showingOmelete_facts [of 3] trim_ovo_sal
    new_search_keeps_counter [of "showingOmelete 3" parseSample "Inr (Some omeleteJson)" "Inl Rejected"
      "js ''ovo, sal''"]
  by simp

text \<open>C5 as stated fails: after three variations, clearing the session leaves the counter at 3.\<close>

theorem new_search_counter_counterexample:
  "variationCount (clickNewSearch (showingOmelete 3)) \<noteq> 0"
  by (simp add: clickNewSearch_def showingOmelete_def initialApp_def)

section \<open>Illustration\<close>

text \<open>
  C8. When the recipe was parsed and the image call is rejected or answers without an
  inline image, \<^verbatim>\<open>generateRecipe\<close> completes as it does with an image: the parsed
  recipe is displayed, without \<^verbatim>\<open>imageUrl\<close>, the counter is updated and
  \<^verbatim>\<open>loading\<close> is cleared.
\<close>

theorem illustration_failure_swallowed:
  assumes "trim (input st) \<noteq> []"
    and "parseResponse parse responseText = Some recipeData"
    and "imageUrl recipeData = None"
    and "imageOutcome = Inl e \<or> (imageOutcome = Inr imgResponse \<and> noInlineImage imgResponse)"
  shows "generateRecipe parse isVariation (Inr responseText) imageOutcome st =
           st\<lparr>loading := False,
              variationCount := (if isVariation then variationCount st + 1 else 0),
              sent := sent st @ [RecipeRequest (recipeContents (input st) isVariation)
                                   (systemPrompt (preference st)),
                                 ImageRequest (imagePrompt recipeData)],
              recipe := Some recipeData\<rparr>
         \<and> recipe (generateRecipe parse isVariation (Inr responseText) imageOutcome st)
             = Some recipeData
         \<and> map_option imageUrl (recipe (generateRecipe parse isVariation (Inr responseText) imageOutcome st))
             = Some None
         \<and> \<not> loading (generateRecipe parse isVariation (Inr responseText) imageOutcome st)"
  using assms(1-3)
  by (simp add: generateRecipe_parsed attachImage_none [OF assms(4)])

theorem illustration_failure_swallowed_witness:
  "trim (input (showingOmelete 0)) \<noteq> []
   \<and> parseResponse parseSample (Some omeleteJson) = Some omelete
   \<and> imageUrl omelete = None
   \<and> noInlineImage \<lparr>candidates = Some [\<lparr>content = Some \<lparr>parts = Some [\<lparr>inlineData = None\<rparr>]\<rparr>\<rparr>]\<rparr>
   \<and> recipe (generateRecipe parseSample True (Inr (Some omeleteJson)) (Inl Rejected) (showingOmelete 0))
       = Some omelete
   \<and> recipe (generateRecipe parseSample True (Inr (Some omeleteJson))
        (Inr \<lparr>candidates = Some [\<lparr>content = Some \<lparr>parts = Some [\<lparr>inlineData = None\<rparr>]\<rparr>\<rparr>]\<rparr>)
        (showingOmelete 0)) = Some omelete
   \<and> variationCount (generateRecipe parseSample True (Inr (Some omeleteJson)) (Inl Rejected)
        (showingOmelete 0)) = 1"
proof -
  let ?r = "\<lparr>candidates = Some [\<lparr>content = Some \<lparr>parts = Some [\<lparr>inlineData = None\<rparr>]\<rparr>\<rparr>]\<rparr>"
  have n: "noInlineImage ?r"
    by (simp add: noInlineImage_def)
  have u: "imageUrl omelete = None"
    by (simp add: omelete_def)
  have t: "trim (input (showingOmelete 0)) \<noteq> []"
    by (rule showingOmelete_facts)
  show ?thesis
    using n u t parseResponse_omelete showingOmelete_facts [of 0]
      illustration_failure_swallowed [OF t parseResponse_omelete u, of "Inl Rejected" Rejected ?r True]
      illustration_failure_swallowed [OF t parseResponse_omelete u, of "Inr ?r" Rejected ?r True]
    by simp
qed

text \<open>
  C9 on a JPEG: the response's inline part says \<^verbatim>\<open>image/jpeg\<close>, the data URI attached
  to the recipe says \<^verbatim>\<open>image/png\<close>.
\<close>

theorem jpeg_image_declared_png:
  "findInlinePart jpegResponse =
     Inr (Some \<lparr>inlineData = Some \<lparr>data = Some (js ''/9j/4AAQSkZJRg==''),
                                      mimeType = Some (js ''image/jpeg'')\<rparr>\<rparr>)
   \<and> imageUrl (attachImage (Inr jpegResponse) omelete)
       = Some (js ''data:image/png;base64,/9j/4AAQSkZJRg=='')"
  by (simp add: attachImage_def findInlinePart_def jpegResponse_def interpolate_def js_def)

section \<open>Export text\<close>

text \<open>
  C7. For a recipe with its required fields the export is, in this order: the title line
  with the name, the total-time line, the ingredients heading with one bullet per
  ingredient in the order given, the instructions heading with the steps in the order
  given, step \<open>k\<close> (from 0) labelled with the decimal numeral of \<open>k + 1\<close>, the tip block
  if there is a non-empty tip and nothing in its place otherwise, and the footer.
\<close>

theorem export_sections:
  assumes "name r = Some n" and "totalTime r = Some time"
    and "ingredients r = Some ings" and "instructions r = Some steps"
  shows "\<exists>bullets numbered tipBlock.
     getMarkdownRecipe (Some r) =
       Inr (js ''# '' @ [0xD83C, 0xDF73] @ js '' '' @ n
            @ [0xA, 0xA, 0x23F1] @ js '' **Tempo total:** '' @ time
            @ [0xA, 0xA] @ js ''## '' @ [0xD83D, 0xDED2] @ js '' Ingredientes'' @ [0xA]
            @ join [0xA] bullets
            @ [0xA, 0xA] @ js ''## '' @ [0xD83D, 0xDC68, 0x200D, 0xD83C, 0xDF73]
            @ js '' Modo de Preparo'' @ [0xA]
            @ join [0xA] numbered
            @ tipBlock
            @ [0xA, 0xA] @ js ''---'' @ [0xA] @ js ''*Gerado por O Que Tem A'' @ [0xED] @ js ''?*'')
     \<and> length bullets = length ings
     \<and> (\<forall>k < length ings. bullets ! k = js ''- '' @ ings ! k)
     \<and> length numbered = length steps
     \<and> (\<forall>k < length steps. \<exists>label.
            numbered ! k = label @ js ''. '' @ steps ! k
            \<and> list_all isDigit label \<and> decimalValue label = k + 1)
     \<and> tipBlock =
         (case tip r of
            None \<Rightarrow> []
          | Some t \<Rightarrow>
              if t = [] then []
              else [0xA, 0xA] @ js ''> '' @ [0xD83D, 0xDCA1] @ js '' **Dica do Chef:** '' @ t)"
proof -
  let ?bullets = "map (\<lambda>ing. js ''- '' @ ing) ings"
  let ?numbered = "map (\<lambda>(i, step). numberToString (i + 1) @ js ''. '' @ step) (enumerate 0 steps)"
  let ?tipBlock = "case tip r of
            None \<Rightarrow> []
          | Some t \<Rightarrow>
              if t = [] then []
              else [0xA, 0xA] @ js ''> '' @ [0xD83D, 0xDCA1] @ js '' **Dica do Chef:** '' @ t"
  have out: "getMarkdownRecipe (Some r) =
       Inr (js ''# '' @ [0xD83C, 0xDF73] @ js '' '' @ n
            @ [0xA, 0xA, 0x23F1] @ js '' **Tempo total:** '' @ time
            @ [0xA, 0xA] @ js ''## '' @ [0xD83D, 0xDED2] @ js '' Ingredientes'' @ [0xA]
            @ join [0xA] ?bullets
            @ [0xA, 0xA] @ js ''## '' @ [0xD83D, 0xDC68, 0x200D, 0xD83C, 0xDF73]
            @ js '' Modo de Preparo'' @ [0xA]
            @ join [0xA] ?numbered
            @ ?tipBlock
            @ [0xA, 0xA] @ js ''---'' @ [0xA] @ js ''*Gerado por O Que Tem A'' @ [0xED] @ js ''?*'')"
    by (cases "tip r") (simp_all add: getMarkdownRecipe_def assms interpolate_def truthy_def)
  have b: "\<forall>k < length ings. ?bullets ! k = js ''- '' @ ings ! k"
    by simp
  have s: "\<forall>k < length steps. \<exists>label.
            ?numbered ! k = label @ js ''. '' @ steps ! k
            \<and> list_all isDigit label \<and> decimalValue label = k + 1"
  proof (intro allI impI)
    fix k assume "k < length steps"
    then have "?numbered ! k = numberToString (k + 1) @ js ''. '' @ steps ! k"
      by (simp add: nth_enumerate_eq)
    then show "\<exists>label. ?numbered ! k = label @ js ''. '' @ steps ! k
                 \<and> list_all isDigit label \<and> decimalValue label = k + 1"
      using digits_numberToString [of "k + 1"] decimalValue_numberToString [of "k + 1"]
      by blast
  qed
  have l: "length ?bullets = length ings" "length ?numbered = length steps"
    by simp_all
  show ?thesis
    using out b s l by blast
qed

theorem export_sections_witness:
  "name friedRice = Some (js ''Fried Rice'') \<and> totalTime friedRice = Some (js ''15 min'')
   \<and> ingredients friedRice = Some [js ''rice'', js ''egg'']
   \<and> instructions friedRice = Some [js ''Heat oil'', js ''Fry egg'', js ''Mix rice'']
   \<and> getMarkdownRecipe (Some friedRice) =
       Inr (js ''# '' @ [0xD83C, 0xDF73] @ js '' Fried Rice'' @ [0xA, 0xA, 0x23F1]
            @ js '' **Tempo total:** 15 min'' @ [0xA, 0xA] @ js ''## '' @ [0xD83D, 0xDED2]
            @ js '' Ingredientes'' @ [0xA] @ js ''- rice'' @ [0xA] @ js ''- egg'' @ [0xA, 0xA]
            @ js ''## '' @ [0xD83D, 0xDC68, 0x200D, 0xD83C, 0xDF73] @ js '' Modo de Preparo'' @ [0xA]
            @ js ''1. Heat oil'' @ [0xA] @ js ''2. Fry egg'' @ [0xA] @ js ''3. Mix rice'' @ [0xA, 0xA]
            @ js ''> '' @ [0xD83D, 0xDCA1] @ js '' **Dica do Chef:** Use day-old rice'' @ [0xA, 0xA]
            @ js ''---'' @ [0xA] @ js ''*Gerado por O Que Tem A'' @ [0xED] @ js ''?*'')
   \<and> getMarkdownRecipe (Some (friedRice\<lparr>tip := None\<rparr>)) =
       Inr (js ''# '' @ [0xD83C, 0xDF73] @ js '' Fried Rice'' @ [0xA, 0xA, 0x23F1]
            @ js '' **Tempo total:** 15 min'' @ [0xA, 0xA] @ js ''## '' @ [0xD83D, 0xDED2]
            @ js '' Ingredientes'' @ [0xA] @ js ''- rice'' @ [0xA] @ js ''- egg'' @ [0xA, 0xA]
            @ js ''## '' @ [0xD83D, 0xDC68, 0x200D, 0xD83C, 0xDF73] @ js '' Modo de Preparo'' @ [0xA]
            @ js ''1. Heat oil'' @ [0xA] @ js ''2. Fry egg'' @ [0xA] @ js ''3. Mix rice'' @ [0xA, 0xA]
            @ js ''---'' @ [0xA] @ js ''*Gerado por O Que Tem A'' @ [0xED] @ js ''?*'')"
proof -
  have h: "name friedRice = Some (js ''Fried Rice'')" "totalTime friedRice = Some (js ''15 min'')"
    "ingredients friedRice = Some [js ''rice'', js ''egg'']"
    "instructions friedRice = Some [js ''Heat oil'', js ''Fry egg'', js ''Mix rice'']"
    by (simp_all add: friedRice_def)
  have n: "numberToString (Suc 0) = js ''1''" "numberToString (Suc (Suc 0)) = js ''2''"
    "numberToString (Suc (Suc (Suc 0))) = js ''3''"
    by (simp_all add: numberToString.simps digit_def js_def)
  have e: "enumerate 0 [js ''Heat oil'', js ''Fry egg'', js ''Mix rice'']
            = [(0, js ''Heat oil''), (1, js ''Fry egg''), (2, js ''Mix rice'')]"
    by (simp add: enumerate_eq_zip upt_rec)
  have a: "getMarkdownRecipe (Some friedRice) =
       Inr (js ''# '' @ [0xD83C, 0xDF73] @ js '' Fried Rice'' @ [0xA, 0xA, 0x23F1]
            @ js '' **Tempo total:** 15 min'' @ [0xA, 0xA] @ js ''## '' @ [0xD83D, 0xDED2]
            @ js '' Ingredientes'' @ [0xA] @ js ''- rice'' @ [0xA] @ js ''- egg'' @ [0xA, 0xA]
            @ js ''## '' @ [0xD83D, 0xDC68, 0x200D, 0xD83C, 0xDF73] @ js '' Modo de Preparo'' @ [0xA]
            @ js ''1. Heat oil'' @ [0xA] @ js ''2. Fry egg'' @ [0xA] @ js ''3. Mix rice'' @ [0xA, 0xA]
            @ js ''> '' @ [0xD83D, 0xDCA1] @ js '' **Dica do Chef:** Use day-old rice'' @ [0xA, 0xA]
            @ js ''---'' @ [0xA] @ js ''*Gerado por O Que Tem A'' @ [0xED] @ js ''?*'')"
    by (simp add: getMarkdownRecipe_def friedRice_def e n truthy_def interpolate_def js_def)
  have b: "getMarkdownRecipe (Some (friedRice\<lparr>tip := None\<rparr>)) =
       Inr (js ''# '' @ [0xD83C, 0xDF73] @ js '' Fried Rice'' @ [0xA, 0xA, 0x23F1]
            @ js '' **Tempo total:** 15 min'' @ [0xA, 0xA] @ js ''## '' @ [0xD83D, 0xDED2]
            @ js '' Ingredientes'' @ [0xA] @ js ''- rice'' @ [0xA] @ js ''- egg'' @ [0xA, 0xA]
            @ js ''## '' @ [0xD83D, 0xDC68, 0x200D, 0xD83C, 0xDF73] @ js '' Modo de Preparo'' @ [0xA]
            @ js ''1. Heat oil'' @ [0xA] @ js ''2. Fry egg'' @ [0xA] @ js ''3. Mix rice'' @ [0xA, 0xA]
            @ js ''---'' @ [0xA] @ js ''*Gerado por O Que Tem A'' @ [0xED] @ js ''?*'')"
    by (simp add: getMarkdownRecipe_def friedRice_def e n truthy_def interpolate_def js_def)
  show ?thesis
    using export_sections [OF h] h a b by blast
qed

end
